theory Spec2Isabelle
  imports Main "HOL-Library.Word" "HOL-Library.Monad_Syntax"
begin

section \<open>The service manager of core/hle/service/sm/sm.cpp\<close>

text \<open>
  The source is the second document of \<^verbatim>\<open>src/src/video_core/textures/convert.h\<close>: the
  registry \<^verbatim>\<open>ServiceManager\<close> (a table from service names to client ports) and the
  wire-facing service \<^verbatim>\<open>SM\<close> with its two handlers. Its headers (result.h, sm.h,
  kernel/errors.h, ipc_helpers.h, common/assert.h) and the kernel's port and session
  classes are not part of the material; what the functions use of them is stated below,
  each time under a comment that says where it comes from.
\<close>

subsection \<open>Result codes and \<^verbatim>\<open>ResultVal\<close>\<close>

text \<open>
  Modelled from the spec: the result-code constants (declared in result.h, sm.h and
  kernel/errors.h, none of them under src/). The taxonomy of the spec has five error
  codes, pairwise different and different from success; \<open>ERR_OTHER\<close> stands for every
  other error the port primitive may return ("CapacityExceeded, other"). The source
  tests a failed connect against \<^verbatim>\<open>Kernel::ERR_MAX_CONNECTIONS_REACHED\<close> and pushes the
  unqualified \<^verbatim>\<open>ERR_MAX_CONNECTIONS_REACHED\<close>; the spec knows one capacity-exceeded
  code, so both names are the one constructor here.
\<close>

datatype ResultCode =
    RESULT_SUCCESS
  | ERR_SERVICE_NOT_REGISTERED
  | ERR_MAX_CONNECTIONS_REACHED
  | ERR_INVALID_NAME_SIZE
  | ERR_NAME_CONTAINS_NUL
  | ERR_ALREADY_REGISTERED
  | ERR_OTHER "32 word"

definition IsError :: "ResultCode \<Rightarrow> bool" where
  "IsError code = (code \<noteq> RESULT_SUCCESS)"

text \<open>
  \<^verbatim>\<open>ResultVal<T>\<close> is a sum: \<open>Inl code\<close> is the value built from an error code,
  \<open>Inr v\<close> the one built by \<^verbatim>\<open>MakeResult\<close>, whose code is success. \<open>Code\<close> and
  \<open>Failed\<close> are its methods; \<^verbatim>\<open>Unwrap\<close> and \<^verbatim>\<open>operator*\<close> are \<open>projr\<close>, which the
  source calls on values that have not failed only.
\<close>

type_synonym 'a ResultVal = "ResultCode + 'a"

definition Code :: "'a ResultVal \<Rightarrow> ResultCode" where
  "Code r = (case r of Inl code \<Rightarrow> code | Inr _ \<Rightarrow> RESULT_SUCCESS)"

definition Failed :: "'a ResultVal \<Rightarrow> bool" where
  "Failed r = (case r of Inl _ \<Rightarrow> True | Inr _ \<Rightarrow> False)"

subsection \<open>Kernel objects\<close>

text \<open>
  A \<^verbatim>\<open>Kernel::SharedPtr\<close> is the identity of the object it points to; two pointers are
  the same endpoint when the identities are equal.
\<close>

type_synonym ObjectId = nat

datatype ServerPort = ServerPort (server_port_id: ObjectId)
datatype ClientPort = ClientPort (client_port_id: ObjectId)
datatype ClientSession = ClientSession (client_session_id: ObjectId)

text \<open>
  The service object: \<^verbatim>\<open>SM::SM\<close> passes the name \<^verbatim>\<open>"sm:"\<close> and 4 sessions to the
  framework and binds the table \<open>SM_functions\<close> (\<^verbatim>\<open>functions\<close> in the source).
\<close>

datatype SM = SM (sm_service_name: string) (sm_max_sessions: nat)
datatype Controller = Controller

datatype SM_handler = SM_Initialize | SM_GetService

definition SM_functions :: "(32 word \<times> SM_handler option \<times> string) list" where
  "SM_functions =
     [(0x00000000, Some SM_Initialize, ''Initialize''),
      (0x00000001, Some SM_GetService, ''GetService''),
      (0x00000002, None, ''RegisterService''),
      (0x00000003, None, ''UnregisterService'')]"

definition make_shared_SM :: SM where
  "make_shared_SM = SM ''sm:'' 4"

text \<open>
  The port and session primitive is outside the source (kernel/server_port.cpp,
  kernel/client_port.cpp, service.cpp), so the functions below take it as a parameter:
  a kernel state of any type \<open>'k\<close> and the three calls the source makes.
  \<open>CreatePortPair\<close> is \<^verbatim>\<open>Kernel::ServerPort::CreatePortPair(max_sessions, name)\<close>,
  \<open>Connect\<close> is \<^verbatim>\<open>ClientPort::Connect()\<close>, \<open>InstallAsNamedPort\<close> is the framework's
  method of that name.
\<close>

record 'k Kernel =
  CreatePortPair :: "32 word \<Rightarrow> string \<Rightarrow> 'k \<Rightarrow> (ServerPort \<times> ClientPort) \<times> 'k"
  Connect :: "ClientPort \<Rightarrow> 'k \<Rightarrow> ClientSession ResultVal \<times> 'k"
  InstallAsNamedPort :: "SM \<Rightarrow> 'k \<Rightarrow> 'k"

subsection \<open>The registry\<close>

text \<open>
  \<open>registered_services\<close> is a \<^verbatim>\<open>std::unordered_map\<close>; it is kept as the list of its
  entries so that "one entry per name" is a property to prove and not one of the type.
  \<open>find_service\<close> is \<^verbatim>\<open>find\<close> (with \<open>None\<close> for \<^verbatim>\<open>end()\<close>), \<open>emplace\<close> inserts only
  when the key is absent, as \<^verbatim>\<open>unordered_map::emplace\<close> does.
\<close>

type_synonym service_table = "(string \<times> ClientPort) list"

definition find_service :: "service_table \<Rightarrow> string \<Rightarrow> ClientPort option" where
  "find_service m name = map_of m name"

definition emplace :: "string \<Rightarrow> ClientPort \<Rightarrow> service_table \<Rightarrow> service_table" where
  "emplace name port m = (if find_service m name = None then m @ [(name, port)] else m)"

text \<open>
  The members of \<^verbatim>\<open>ServiceManager\<close>: the table, the weak pointer to the service
  object (\<open>None\<close> while nothing was assigned to it) and the owned controller.
\<close>

record ServiceManager =
  registered_services :: service_table
  sm_interface :: "SM option"
  controller_interface :: "Controller option"

text \<open>
  Modelled from the spec: the lifetime of the \<^verbatim>\<open>std::weak_ptr<SM>\<close> in \<open>sm_interface\<close>
  (the framework's \<^verbatim>\<open>InstallAsNamedPort\<close>, which takes the shared pointer, is not under
  src/). The pointer is empty until \<open>InstallInterfaces\<close> assigns it; the service it is
  assigned has been installed under its well-known name, which keeps it alive for as long
  as the registry lives. So \<open>expired\<close> holds exactly of the pointer that was never
  assigned.
\<close>

definition expired :: "SM option \<Rightarrow> bool" where
  "expired p = (p = None)"

definition new_ServiceManager :: ServiceManager where
  "new_ServiceManager =
     \<lparr>registered_services = [], sm_interface = None, controller_interface = None\<rparr>"

definition NUL :: char where
  "NUL = CHR 0x00"

definition ValidateServiceName :: "string \<Rightarrow> ResultCode" where
  "ValidateServiceName name =
     (if length name \<le> 0 \<or> length name > 8 then ERR_INVALID_NAME_SIZE
      else if NUL \<in> set name then ERR_NAME_CONTAINS_NUL
      else RESULT_SUCCESS)"

text \<open>
  Modelled from the spec: \<^verbatim>\<open>ASSERT\<close> (common/assert.h is not under src/). A failed
  assertion is the fatal path: the call does not return, which is the value
  \<open>Inl AssertionFailed\<close>.
\<close>

datatype fatal = AssertionFailed

definition InstallInterfaces ::
  "'k Kernel \<Rightarrow> ServiceManager \<Rightarrow> 'k \<Rightarrow> fatal + (ServiceManager \<times> 'k)" where
  "InstallInterfaces K self k =
     (if \<not> expired (sm_interface self) then Inl AssertionFailed
      else
        let sm = make_shared_SM;
            k' = InstallAsNamedPort K sm k
        in Inr (self\<lparr>sm_interface := Some sm,
                      controller_interface := Some Controller\<rparr>, k'))"

text \<open>
  \<^verbatim>\<open>CASCADE_CODE\<close> returns the code when it is an error, \<^verbatim>\<open>CASCADE_RESULT\<close> returns
  the code of a failed \<^verbatim>\<open>ResultVal\<close> and binds its value otherwise. A function of the
  registry returns its result with the registry and the kernel state it leaves.
\<close>

definition RegisterService ::
  "'k Kernel \<Rightarrow> string \<Rightarrow> 32 word \<Rightarrow> ServiceManager \<Rightarrow> 'k
     \<Rightarrow> ServerPort ResultVal \<times> ServiceManager \<times> 'k" where
  "RegisterService K name max_sessions self k =
     (if IsError (ValidateServiceName name) then (Inl (ValidateServiceName name), self, k)
      else if find_service (registered_services self) name \<noteq> None
        then (Inl ERR_ALREADY_REGISTERED, self, k)
      else
        case CreatePortPair K max_sessions name k of
          ((server_port, client_port), k') \<Rightarrow>
            (Inr server_port,
             self\<lparr>registered_services := emplace name client_port (registered_services self)\<rparr>,
             k'))"

definition GetServicePort :: "string \<Rightarrow> ServiceManager \<Rightarrow> ClientPort ResultVal" where
  "GetServicePort name self =
     (if IsError (ValidateServiceName name) then Inl (ValidateServiceName name)
      else case find_service (registered_services self) name of
             None \<Rightarrow> Inl ERR_SERVICE_NOT_REGISTERED
           | Some port \<Rightarrow> Inr port)"

definition ConnectToService ::
  "'k Kernel \<Rightarrow> string \<Rightarrow> ServiceManager \<Rightarrow> 'k \<Rightarrow> ClientSession ResultVal \<times> 'k" where
  "ConnectToService K name self k =
     (let check_result = GetServicePort name self
      in if Failed check_result then (Inl (Code check_result), k)
         else Connect K (projr check_result) k)"

text \<open>
  The composition as section 4.1 of the spec words it: \<open>resolve(name)\<close>, then
  \<open>connect\<close> on the result; whichever step fails first determines the error.
\<close>

definition resolve_then_connect ::
  "'k Kernel \<Rightarrow> string \<Rightarrow> ServiceManager \<Rightarrow> 'k \<Rightarrow> ClientSession ResultVal \<times> 'k" where
  "resolve_then_connect K name self k =
     (case GetServicePort name self of
        Inl resolve_error \<Rightarrow> (Inl resolve_error, k)
      | Inr connector \<Rightarrow> Connect K connector k)"

subsection \<open>Requests and replies\<close>

text \<open>
  Modelled from the spec: the request parser and the reply builder
  (\<^verbatim>\<open>IPC::RequestParser\<close>, \<^verbatim>\<open>IPC::RequestBuilder\<close>; ipc_helpers.h is not under
  src/). The wire format of the spec puts the inputs one after the other in 32-bit
  words, so the request is the bytes of its data payload, read from the front:
  \<^verbatim>\<open>Pop<u32>\<close> reads one word (little-endian), \<^verbatim>\<open>PopRaw<T>\<close> copies the
  \<^verbatim>\<open>sizeof(T)\<close> bytes that the call names and advances to the next word boundary. A
  read beyond the payload has no value (\<open>None\<close>). A reply is what the builder was
  created with (the number of result words, of handles to copy and of objects to move)
  and what was pushed into it: result code words and handles.
\<close>

record HLERequestContext =
  cmd_buf :: "char list"

record RequestParser =
  parser_buf :: "char list"
  parser_index :: nat

definition RequestParser_of :: "HLERequestContext \<Rightarrow> RequestParser" where
  "RequestParser_of ctx = \<lparr>parser_buf = cmd_buf ctx, parser_index = 0\<rparr>"

definition u32_of_bytes :: "char list \<Rightarrow> 32 word" where
  "u32_of_bytes bs = foldr (\<lambda>c w. of_char c + 256 * w) bs 0"

definition PopRaw :: "nat \<Rightarrow> RequestParser \<Rightarrow> (char list \<times> RequestParser) option" where
  "PopRaw sizeof_T rp =
     (let bytes = take sizeof_T (drop (4 * parser_index rp) (parser_buf rp))
      in if length bytes < sizeof_T then None
         else Some (bytes, rp\<lparr>parser_index := parser_index rp + (sizeof_T + 3) div 4\<rparr>))"

definition Pop_u32 :: "RequestParser \<Rightarrow> (32 word \<times> RequestParser) option" where
  "Pop_u32 rp =
     (case PopRaw 4 rp of
        None \<Rightarrow> None
      | Some (bytes, rp') \<Rightarrow> Some (u32_of_bytes bytes, rp'))"

datatype Object = SessionObject ClientSession | PortObject ClientPort

record RequestBuilder =
  normal_params_size :: nat
  num_handles_to_copy :: nat
  num_objects_to_move :: nat
  pushed_words :: "ResultCode list"
  pushed_objects :: "Object list"

definition MakeBuilder :: "nat \<Rightarrow> nat \<Rightarrow> nat \<Rightarrow> RequestBuilder" where
  "MakeBuilder normal_params handles_to_copy objects_to_move =
     \<lparr>normal_params_size = normal_params, num_handles_to_copy = handles_to_copy,
      num_objects_to_move = objects_to_move, pushed_words = [], pushed_objects = []\<rparr>"

definition Push :: "ResultCode \<Rightarrow> RequestBuilder \<Rightarrow> RequestBuilder" where
  "Push code rb = rb\<lparr>pushed_words := pushed_words rb @ [code]\<rparr>"

definition PushObjects :: "Object \<Rightarrow> RequestBuilder \<Rightarrow> RequestBuilder" where
  "PushObjects obj rb = rb\<lparr>pushed_objects := pushed_objects rb @ [obj]\<rparr>"

text \<open>
  \<^verbatim>\<open>std::string name(name_buf.data())\<close> is the constructor from a C string: it copies
  the bytes before the first terminator. \<open>name_buf\<close> is an array of 9 bytes; when none
  of them is the terminator the constructor reads beyond the array, which has no defined
  result (\<open>None\<close>).
\<close>

definition string_of_c_str :: "char list \<Rightarrow> string option" where
  "string_of_c_str buf =
     (if NUL \<in> set buf then Some (takeWhile (\<lambda>c. c \<noteq> NUL) buf) else None)"

subsection \<open>The handlers of \<^verbatim>\<open>SM\<close>\<close>

text \<open>
  A handler returns the reply it built and the kernel state it leaves; the registry is
  only read. \<open>Initialize\<close> builds its reply with \<^verbatim>\<open>IPC::RequestBuilder rb{ctx, 1}\<close>: one
  result word, no handles.
\<close>

definition Initialize ::
  "ServiceManager \<Rightarrow> HLERequestContext \<Rightarrow> 'k \<Rightarrow> RequestBuilder \<times> ServiceManager \<times> 'k" where
  "Initialize service_manager ctx k =
     (Push RESULT_SUCCESS (MakeBuilder 1 0 0), service_manager, k)"

text \<open>
  \<open>GetService_name\<close> is the first four statements of \<^verbatim>\<open>SM::GetService\<close>: the two
  unknown words, the 9-byte buffer and the name made from it.
\<close>

definition GetService_name :: "HLERequestContext \<Rightarrow> (char list \<times> string) option" where
  "GetService_name ctx =
     do {
       (unk1, rp1) \<leftarrow> Pop_u32 (RequestParser_of ctx);
       (unk2, rp2) \<leftarrow> Pop_u32 rp1;
       (name_buf, rp3) \<leftarrow> PopRaw 9 rp2;
       name \<leftarrow> string_of_c_str name_buf;
       Some (name_buf, name)
     }"

definition GetService ::
  "'k Kernel \<Rightarrow> ServiceManager \<Rightarrow> HLERequestContext \<Rightarrow> 'k
     \<Rightarrow> (RequestBuilder \<times> ServiceManager \<times> 'k) option" where
  "GetService K service_manager ctx k =
     do {
       (name_buf, name) \<leftarrow> GetService_name ctx;
       let client_port = GetServicePort name service_manager;
       if Failed client_port
       then Some (Push (Code client_port) (MakeBuilder 1 0 0), service_manager, k)
       else
         case Connect K (projr client_port) k of
           (session, k') \<Rightarrow>
             if \<not> Failed session
             then Some (PushObjects (SessionObject (projr session))
                          (Push (Code session) (MakeBuilder 1 0 1)), service_manager, k')
             else if Code session = ERR_MAX_CONNECTIONS_REACHED
             then Some (PushObjects (PortObject (projr client_port))
                          (Push ERR_MAX_CONNECTIONS_REACHED (MakeBuilder 1 0 1)),
                        service_manager, k')
             else Some (Push (Code session) (MakeBuilder 1 0 0), service_manager, k')
     }"

subsection \<open>Runs of the registry\<close>

text \<open>
  The calls of this file as operations on one registry and one kernel. A run stops
  (\<open>None\<close>) at a failed assertion and at a request whose name has no defined decoding;
  a call that returns an error code leaves the state it returns and the run goes on.
  \<^verbatim>\<open>InvokeControlRequest\<close> hands the request to the controller, which is outside the
  source, and is not among the operations.
\<close>

datatype operation =
    Op_InstallInterfaces
  | Op_RegisterService string "32 word"
  | Op_GetServicePort string
  | Op_ConnectToService string
  | Op_Initialize HLERequestContext
  | Op_GetService HLERequestContext

fun step :: "'k Kernel \<Rightarrow> operation \<Rightarrow> ServiceManager \<times> 'k \<Rightarrow> (ServiceManager \<times> 'k) option" where
  "step K Op_InstallInterfaces (self, k) =
     (case InstallInterfaces K self k of Inl _ \<Rightarrow> None | Inr w \<Rightarrow> Some w)"
| "step K (Op_RegisterService name max_sessions) (self, k) =
     Some (snd (RegisterService K name max_sessions self k))"
| "step K (Op_GetServicePort name) (self, k) =
     Some (self, k)"
| "step K (Op_ConnectToService name) (self, k) =
     Some (self, snd (ConnectToService K name self k))"
| "step K (Op_Initialize ctx) (self, k) =
     Some (snd (Initialize self ctx k))"
| "step K (Op_GetService ctx) (self, k) =
     map_option snd (GetService K self ctx k)"

fun run :: "'k Kernel \<Rightarrow> operation list \<Rightarrow> ServiceManager \<times> 'k \<Rightarrow> (ServiceManager \<times> 'k) option" where
  "run K [] w = Some w"
| "run K (op # ops) w = (case step K op w of None \<Rightarrow> None | Some w' \<Rightarrow> run K ops w')"

subsection \<open>A port primitive to run the registry on\<close>

text \<open>
  Modelled from the spec: the port/session primitive of section 6 (the kernel's
  \<^verbatim>\<open>ServerPort\<close>, \<^verbatim>\<open>ClientPort\<close> and \<^verbatim>\<open>ClientSession\<close> are not under src/). A port
  pair is two fresh objects, the client port carrying the maximum and the current number
  of sessions; \<open>connect\<close> returns a fresh session while the port has capacity left and
  the capacity-exceeded code once it has none; a client port the kernel does not know
  gives another error. The theorems below hold of every primitive; this one serves to
  run them on concrete requests.
\<close>

record kernel_state =
  next_object_id :: ObjectId
  client_ports :: "(ObjectId \<times> nat \<times> nat) list"
  named_ports :: "SM list"

definition new_kernel :: kernel_state where
  "new_kernel = \<lparr>next_object_id = 0, client_ports = [], named_ports = []\<rparr>"

definition spec_create_port_pair ::
  "32 word \<Rightarrow> string \<Rightarrow> kernel_state \<Rightarrow> (ServerPort \<times> ClientPort) \<times> kernel_state" where
  "spec_create_port_pair max_sessions name k =
     ((ServerPort (next_object_id k), ClientPort (Suc (next_object_id k))),
      k\<lparr>next_object_id := next_object_id k + 2,
        client_ports := (Suc (next_object_id k), unat max_sessions, 0) # client_ports k\<rparr>)"

definition spec_connect ::
  "ClientPort \<Rightarrow> kernel_state \<Rightarrow> ClientSession ResultVal \<times> kernel_state" where
  "spec_connect port k =
     (case map_of (client_ports k) (client_port_id port) of
        None \<Rightarrow> (Inl (ERR_OTHER 0xFFFFFFFF), k)
      | Some (max_sessions, active_sessions) \<Rightarrow>
          if active_sessions \<ge> max_sessions then (Inl ERR_MAX_CONNECTIONS_REACHED, k)
          else (Inr (ClientSession (next_object_id k)),
                k\<lparr>next_object_id := next_object_id k + 1,
                  client_ports :=
                    (client_port_id port, max_sessions, active_sessions + 1) # client_ports k\<rparr>))"

definition spec_install_as_named_port :: "SM \<Rightarrow> kernel_state \<Rightarrow> kernel_state" where
  "spec_install_as_named_port sm k = k\<lparr>named_ports := sm # named_ports k\<rparr>"

definition spec_kernel :: "kernel_state Kernel" where
  "spec_kernel =
     \<lparr>CreatePortPair = spec_create_port_pair, Connect = spec_connect,
      InstallAsNamedPort = spec_install_as_named_port\<rparr>"

text \<open>
  A request for \<open>GetService\<close>: two zero words and the name, padded with terminators to
  12 bytes.
\<close>

definition GetService_request :: "string \<Rightarrow> HLERequestContext" where
  "GetService_request name =
     \<lparr>cmd_buf = replicate 8 NUL @ name @ replicate (12 - length name) NUL\<rparr>"

text \<open>
  The registry and the kernel after \<open>RegisterService("fs", 1)\<close> on the new registry
  and the new kernel of the primitive above.
\<close>

definition fs_manager :: ServiceManager where
  "fs_manager =
     \<lparr>registered_services = [(''fs'', ClientPort 1)], sm_interface = None,
      controller_interface = None\<rparr>"

definition fs_kernel :: kernel_state where
  "fs_kernel = \<lparr>next_object_id = 2, client_ports = [(1, 1, 0)], named_ports = []\<rparr>"

text \<open>The kernel of that scenario once the one session of "fs" is open.\<close>

definition fs_kernel_busy :: kernel_state where
  "fs_kernel_busy =
     \<lparr>next_object_id = 3, client_ports = [(1, 1, 1), (1, 1, 0)], named_ports = []\<rparr>"

text \<open>The new registry and the new kernel after one \<open>InstallInterfaces\<close>.\<close>

definition installed_manager :: ServiceManager where
  "installed_manager =
     \<lparr>registered_services = [], sm_interface = Some (SM ''sm:'' 4),
      controller_interface = Some Controller\<rparr>"

definition installed_kernel :: kernel_state where
  "installed_kernel = \<lparr>next_object_id = 0, client_ports = [], named_ports = [SM ''sm:'' 4]\<rparr>"

section \<open>Properties\<close>

subsection \<open>The table of services\<close>

lemma emplace_absent:
  "find_service m name = None \<Longrightarrow> emplace name port m = m @ [(name, port)]"
  by (simp add: emplace_def)

subsection \<open>Valid names\<close>

lemma valid_name_iff:
  "ValidateServiceName name = RESULT_SUCCESS \<longleftrightarrow>
     1 \<le> length name \<and> length name \<le> 8 \<and> NUL \<notin> set name"
  by (cases name) (auto simp: ValidateServiceName_def)

lemma IsError_validate:
  "IsError (ValidateServiceName name) \<longleftrightarrow>
     \<not> (1 \<le> length name \<and> length name \<le> 8 \<and> NUL \<notin> set name)"
  by (simp add: IsError_def valid_name_iff)

lemma RegisterService_fresh:
  assumes "1 \<le> length N" "length N \<le> 8" "NUL \<notin> set N"
    and "find_service (registered_services self) N = None"
    and "CreatePortPair K max_sessions N k = ((acceptor, connector), k')"
  shows "RegisterService K N max_sessions self k =
           (Inr acceptor,
            self\<lparr>registered_services := registered_services self @ [(N, connector)]\<rparr>, k')"
  using assms by (simp add: RegisterService_def IsError_validate emplace_absent)

lemma RegisterService_success:
  assumes "RegisterService K N max_sessions self k = (Inr acceptor, self', k')"
  obtains connector where
    "1 \<le> length N" "length N \<le> 8" "NUL \<notin> set N"
    "find_service (registered_services self) N = None"
    "CreatePortPair K max_sessions N k = ((acceptor, connector), k')"
    "self' = self\<lparr>registered_services := registered_services self @ [(N, connector)]\<rparr>"
  using assms
  by (auto simp: RegisterService_def IsError_validate emplace_absent
        split: if_splits prod.splits)

lemma GetServicePort_found:
  assumes "1 \<le> length N" "length N \<le> 8" "NUL \<notin> set N"
    and "find_service (registered_services self) N = Some port"
  shows "GetServicePort N self = Inr port"
  using assms by (simp add: GetServicePort_def IsError_validate)

subsection \<open>The scenario of the spec: one service "fs" with one session\<close>

lemma register_fs:
  "RegisterService spec_kernel ''fs'' 1 new_ServiceManager new_kernel =
     (Inr (ServerPort 0), fs_manager, fs_kernel)"
  by (simp add: RegisterService_def ValidateServiceName_def IsError_def NUL_def
        find_service_def emplace_def new_ServiceManager_def spec_kernel_def
        spec_create_port_pair_def new_kernel_def fs_manager_def fs_kernel_def)

lemma create_fs:
  "CreatePortPair spec_kernel 1 ''fs'' new_kernel = ((ServerPort 0, ClientPort 1), fs_kernel)"
  by (simp add: spec_kernel_def spec_create_port_pair_def new_kernel_def fs_kernel_def)

lemma resolve_fs: "GetServicePort ''fs'' fs_manager = Inr (ClientPort 1)"
  by (simp add: GetServicePort_def ValidateServiceName_def IsError_def NUL_def
        find_service_def fs_manager_def)

lemma resolve_nope: "GetServicePort ''nope'' new_ServiceManager = Inl ERR_SERVICE_NOT_REGISTERED"
  by (simp add: GetServicePort_def ValidateServiceName_def IsError_def NUL_def
        find_service_def new_ServiceManager_def)

lemma connect_fs_first:
  "Connect spec_kernel (ClientPort 1) fs_kernel =
     (Inr (ClientSession 2),
      \<lparr>next_object_id = 3, client_ports = [(1, 1, 1), (1, 1, 0)], named_ports = []\<rparr>)"
  by (simp add: spec_kernel_def spec_connect_def fs_kernel_def)

lemma run_register_fs:
  "run spec_kernel [Op_RegisterService ''fs'' 1] (new_ServiceManager, new_kernel) =
     Some (fs_manager, fs_kernel)"
  by (simp add: register_fs)

lemma run_fs_again:
  "run spec_kernel [Op_RegisterService ''fs'' 5, Op_RegisterService ''gpu'' 2]
     (fs_manager, fs_kernel) =
   Some (fs_manager\<lparr>registered_services := [(''fs'', ClientPort 1), (''gpu'', ClientPort 3)]\<rparr>,
         fs_kernel\<lparr>next_object_id := 4, client_ports := [(3, 2, 0), (1, 1, 0)]\<rparr>)"
  by (simp add: RegisterService_def ValidateServiceName_def IsError_def NUL_def
        find_service_def emplace_def spec_kernel_def
        spec_create_port_pair_def fs_manager_def fs_kernel_def)

lemma install_first:
  "InstallInterfaces spec_kernel new_ServiceManager new_kernel =
     Inr (installed_manager, installed_kernel)"
  by (simp add: InstallInterfaces_def expired_def new_ServiceManager_def make_shared_SM_def
        spec_kernel_def spec_install_as_named_port_def new_kernel_def installed_manager_def
        installed_kernel_def Let_def)

lemma run_installed_fs:
  "run spec_kernel [Op_RegisterService ''fs'' 1] (installed_manager, installed_kernel) =
     Some (installed_manager\<lparr>registered_services := [(''fs'', ClientPort 1)]\<rparr>,
           installed_kernel\<lparr>next_object_id := 2, client_ports := [(1, 1, 0)]\<rparr>)"
  by (simp add: RegisterService_def ValidateServiceName_def IsError_def NUL_def
        find_service_def emplace_def spec_kernel_def
        spec_create_port_pair_def installed_manager_def installed_kernel_def)

lemma connect_fs_second:
  "Connect spec_kernel (ClientPort 1) fs_kernel_busy =
     (Inl ERR_MAX_CONNECTIONS_REACHED, fs_kernel_busy)"
  by (simp add: spec_kernel_def spec_connect_def fs_kernel_busy_def)

subsection \<open>Registering and resolving\<close>

text \<open>
  C2. For a valid name \<open>N\<close> (1 to 8 bytes, none of them the terminator) that the table
  does not hold, \<open>RegisterService\<close> returns the server port of the pair that its one
  call of \<open>CreatePortPair\<close> made, leaves the kernel as that one call left it, and
  \<open>GetServicePort N\<close> on the registry it leaves returns the client port of the same
  pair.
\<close>

theorem register_then_resolve:
  assumes "1 \<le> length N" "length N \<le> 8" "NUL \<notin> set N"
    and "find_service (registered_services self) N = None"
    and "CreatePortPair K max_sessions N k = ((acceptor, connector), k')"
  shows "fst (RegisterService K N max_sessions self k) = Inr acceptor \<and>
         snd (snd (RegisterService K N max_sessions self k)) = k' \<and>
         GetServicePort N (fst (snd (RegisterService K N max_sessions self k))) = Inr connector"
proof -
  let ?self' = "self\<lparr>registered_services := registered_services self @ [(N, connector)]\<rparr>"
  have reg: "RegisterService K N max_sessions self k = (Inr acceptor, ?self', k')"
    using assms by (rule RegisterService_fresh)
  have "find_service (registered_services ?self') N = Some connector"
    using assms(4) by (simp add: find_service_def map_add_def)
  with assms(1-3) have "GetServicePort N ?self' = Inr connector"
    by (rule GetServicePort_found)
  with reg show ?thesis by simp
qed

theorem register_then_resolve_witness:
  "1 \<le> length ''fs'' \<and> length ''fs'' \<le> 8 \<and> NUL \<notin> set ''fs'' \<and>
   find_service (registered_services new_ServiceManager) ''fs'' = None \<and>
   CreatePortPair spec_kernel 1 ''fs'' new_kernel = ((ServerPort 0, ClientPort 1), fs_kernel) \<and>
   fst (RegisterService spec_kernel ''fs'' 1 new_ServiceManager new_kernel) = Inr (ServerPort 0) \<and>
   snd (snd (RegisterService spec_kernel ''fs'' 1 new_ServiceManager new_kernel)) = fs_kernel \<and>
   GetServicePort ''fs''
     (fst (snd (RegisterService spec_kernel ''fs'' 1 new_ServiceManager new_kernel)))
     = Inr (ClientPort 1)"
proof -
  have h1: "1 \<le> length ''fs''" and h2: "length ''fs'' \<le> 8" by simp_all
  have h3: "NUL \<notin> set ''fs''" by (simp add: NUL_def)
  have h4: "find_service (registered_services new_ServiceManager) ''fs'' = None"
    by (simp add: find_service_def new_ServiceManager_def)
  note h5 = create_fs
  show ?thesis
    using h1 h2 h3 h4 h5 register_then_resolve [OF h1 h2 h3 h4 h5] by simp
qed

text \<open>
  C3. After a successful \<open>RegisterService N\<close>, a second \<open>RegisterService N\<close> (with any
  session limit) returns \<open>ERR_ALREADY_REGISTERED\<close> and leaves the registry and the kernel
  as they were, so no port pair is created; \<open>GetServicePort N\<close> still returns the client
  port of the pair the first call made.
\<close>

theorem register_twice:
  assumes "RegisterService K N max_sessions self k = (Inr acceptor, self', k')"
  shows "RegisterService K N max_sessions2 self' k' = (Inl ERR_ALREADY_REGISTERED, self', k') \<and>
         GetServicePort N self' = Inr (snd (fst (CreatePortPair K max_sessions N k))) \<and>
         GetServicePort N (fst (snd (RegisterService K N max_sessions2 self' k')))
           = GetServicePort N self'"
proof -
  from assms obtain connector where
        valid: "1 \<le> length N" "length N \<le> 8" "NUL \<notin> set N"
    and fresh: "find_service (registered_services self) N = None"
    and pair: "CreatePortPair K max_sessions N k = ((acceptor, connector), k')"
    and tab: "self' = self\<lparr>registered_services := registered_services self @ [(N, connector)]\<rparr>"
    by (rule RegisterService_success)
  have present: "find_service (registered_services self') N = Some connector"
    using fresh by (simp add: tab find_service_def map_add_def)
  have second: "RegisterService K N max_sessions2 self' k' = (Inl ERR_ALREADY_REGISTERED, self', k')"
    using valid present by (simp add: RegisterService_def IsError_validate)
  have "GetServicePort N self' = Inr connector"
    using valid present by (rule GetServicePort_found)
  with second pair show ?thesis by simp
qed

theorem register_twice_witness:
  "RegisterService spec_kernel ''fs'' 1 new_ServiceManager new_kernel =
     (Inr (ServerPort 0), fs_manager, fs_kernel) \<and>
   RegisterService spec_kernel ''fs'' 1 fs_manager fs_kernel =
     (Inl ERR_ALREADY_REGISTERED, fs_manager, fs_kernel) \<and>
   GetServicePort ''fs'' fs_manager = Inr (ClientPort 1)"
  using register_fs register_twice [OF register_fs, of 1] by (simp add: create_fs)

subsection \<open>Name validation\<close>

text \<open>
  C4, as the claim states it, fails: a name of nine bytes that contains the terminator is
  longer than 8 bytes, and the size test comes first.
\<close>

theorem validation_table_counterexample:
  "NUL \<in> set (''abcd'' @ [NUL] @ ''efgh'') \<and>
   ValidateServiceName (''abcd'' @ [NUL] @ ''efgh'') = ERR_INVALID_NAME_SIZE \<and>
   ValidateServiceName (''abcd'' @ [NUL] @ ''efgh'') \<noteq> ERR_NAME_CONTAINS_NUL"
  by (simp add: ValidateServiceName_def)

text \<open>
  C4, amended. \<open>ValidateServiceName\<close> maps the empty name and every name longer than 8
  bytes to \<open>ERR_INVALID_NAME_SIZE\<close>, every name of 1 to 8 bytes that contains the
  terminator to \<open>ERR_NAME_CONTAINS_NUL\<close>, and accepts every 8-byte name without
  terminator. \<open>RegisterService\<close> and \<open>GetServicePort\<close> both apply it: on a name it does
  not accept they return its code, and \<open>RegisterService\<close> changes nothing.
\<close>

theorem validation_table:
  "(name = [] \<longrightarrow> ValidateServiceName name = ERR_INVALID_NAME_SIZE) \<and>
   (length name > 8 \<longrightarrow> ValidateServiceName name = ERR_INVALID_NAME_SIZE) \<and>
   (1 \<le> length name \<and> length name \<le> 8 \<and> NUL \<in> set name
      \<longrightarrow> ValidateServiceName name = ERR_NAME_CONTAINS_NUL) \<and>
   (length name = 8 \<and> NUL \<notin> set name \<longrightarrow> ValidateServiceName name = RESULT_SUCCESS) \<and>
   (ValidateServiceName name \<noteq> RESULT_SUCCESS \<longrightarrow>
      RegisterService K name max_sessions self k = (Inl (ValidateServiceName name), self, k) \<and>
      GetServicePort name self = Inl (ValidateServiceName name))"
  by (simp add: ValidateServiceName_def RegisterService_def GetServicePort_def IsError_def)

theorem validation_table_witness:
  "ValidateServiceName [] = ERR_INVALID_NAME_SIZE \<and>
   length ''123456789'' > 8 \<and> ValidateServiceName ''123456789'' = ERR_INVALID_NAME_SIZE \<and>
   NUL \<in> set (''ab'' @ [NUL] @ ''cd'') \<and>
   ValidateServiceName (''ab'' @ [NUL] @ ''cd'') = ERR_NAME_CONTAINS_NUL \<and>
   length ''12345678'' = 8 \<and> NUL \<notin> set ''12345678'' \<and>
   ValidateServiceName ''12345678'' = RESULT_SUCCESS \<and>
   RegisterService spec_kernel [] 1 new_ServiceManager new_kernel =
     (Inl ERR_INVALID_NAME_SIZE, new_ServiceManager, new_kernel) \<and>
   GetServicePort (''ab'' @ [NUL] @ ''cd'') new_ServiceManager = Inl ERR_NAME_CONTAINS_NUL"
proof -
  have a: "length ''123456789'' > 8" by simp
  have b: "1 \<le> length (''ab'' @ [NUL] @ ''cd'') \<and> length (''ab'' @ [NUL] @ ''cd'') \<le> 8 \<and>
           NUL \<in> set (''ab'' @ [NUL] @ ''cd'')" by simp
  have c: "length ''12345678'' = 8 \<and> NUL \<notin> set ''12345678''" by (simp add: NUL_def)
  show ?thesis
    using a b c
      validation_table [of "[]" spec_kernel 1 new_ServiceManager new_kernel]
      validation_table [of "''123456789''" spec_kernel 1 new_ServiceManager new_kernel]
      validation_table [of "''ab'' @ [NUL] @ ''cd''" spec_kernel 1 new_ServiceManager new_kernel]
      validation_table [of "''12345678''" spec_kernel 1 new_ServiceManager new_kernel]
    by simp
qed

subsection \<open>Connecting by name\<close>

text \<open>
  C8. \<open>ConnectToService\<close> is the composition of the spec, \<open>resolve\<close> then \<open>connect\<close>:
  when \<open>GetServicePort\<close> fails, it returns that error and the kernel is untouched; when
  \<open>GetServicePort\<close> returns a port, it returns exactly what \<open>Connect\<close> on that port
  returns.
\<close>

theorem ConnectToService_composition:
  "ConnectToService K name self k = resolve_then_connect K name self k \<and>
   (\<forall>code. GetServicePort name self = Inl code \<longrightarrow>
      ConnectToService K name self k = (Inl code, k)) \<and>
   (\<forall>port. GetServicePort name self = Inr port \<longrightarrow>
      ConnectToService K name self k = Connect K port k)"
  by (cases "GetServicePort name self")
     (simp_all add: ConnectToService_def resolve_then_connect_def Failed_def Code_def)

theorem ConnectToService_composition_witness:
  "GetServicePort ''nope'' new_ServiceManager = Inl ERR_SERVICE_NOT_REGISTERED \<and>
   ConnectToService spec_kernel ''nope'' new_ServiceManager new_kernel =
     (Inl ERR_SERVICE_NOT_REGISTERED, new_kernel) \<and>
   GetServicePort ''fs'' fs_manager = Inr (ClientPort 1) \<and>
   ConnectToService spec_kernel ''fs'' fs_manager fs_kernel =
     (Inr (ClientSession 2),
      \<lparr>next_object_id = 3, client_ports = [(1, 1, 1), (1, 1, 0)], named_ports = []\<rparr>)"
proof -
  have a: "ConnectToService spec_kernel ''nope'' new_ServiceManager new_kernel =
             (Inl ERR_SERVICE_NOT_REGISTERED, new_kernel)"
    using resolve_nope
      ConnectToService_composition [of spec_kernel "''nope''" new_ServiceManager new_kernel]
    by blast
  have "ConnectToService spec_kernel ''fs'' fs_manager fs_kernel =
          Connect spec_kernel (ClientPort 1) fs_kernel"
    using resolve_fs
      ConnectToService_composition [of spec_kernel "''fs''" fs_manager fs_kernel]
    by blast
  with a resolve_nope resolve_fs connect_fs_first show ?thesis by simp
qed

subsection \<open>What a run keeps\<close>

lemma GetService_manager:
  "GetService K service_manager ctx k = Some (rb, sm', k') \<Longrightarrow> sm' = service_manager"
  by (auto simp: GetService_def Let_def split: bind_splits prod.splits if_splits)

lemma InstallInterfaces_table:
  "InstallInterfaces K self k = Inr (self', k') \<Longrightarrow>
     registered_services self' = registered_services self \<and> sm_interface self' \<noteq> None"
  by (auto simp: InstallInterfaces_def Let_def split: if_splits)

lemma RegisterService_cases:
  "snd (RegisterService K name max_sessions self k) = (self, k) \<or>
   (\<exists>connector k'. 1 \<le> length name \<and> length name \<le> 8 \<and> NUL \<notin> set name \<and>
      find_service (registered_services self) name = None \<and>
      snd (RegisterService K name max_sessions self k) =
        (self\<lparr>registered_services := registered_services self @ [(name, connector)]\<rparr>, k'))"
  by (auto simp: RegisterService_def IsError_validate emplace_absent split: prod.splits)

lemma step_cases:
  assumes "step K op (self, k) = Some (self', k')"
  shows "(registered_services self' = registered_services self \<or>
          (\<exists>name max_sessions connector.
             op = Op_RegisterService name max_sessions \<and>
             1 \<le> length name \<and> length name \<le> 8 \<and> NUL \<notin> set name \<and>
             find_service (registered_services self) name = None \<and>
             registered_services self' = registered_services self @ [(name, connector)])) \<and>
         (sm_interface self \<noteq> None \<longrightarrow> sm_interface self' \<noteq> None \<and> op \<noteq> Op_InstallInterfaces)"
proof (cases op)
  case Op_InstallInterfaces
  with assms show ?thesis
    by (auto simp: InstallInterfaces_def expired_def Let_def split: if_splits sum.splits)
next
  case (Op_RegisterService name max_sessions)
  with assms RegisterService_cases [of K name max_sessions self k]
  show ?thesis by auto
next
  case (Op_GetServicePort name)
  with assms show ?thesis by auto
next
  case (Op_ConnectToService name)
  with assms show ?thesis by auto
next
  case (Op_Initialize ctx)
  with assms show ?thesis by (auto simp: Initialize_def)
next
  case (Op_GetService ctx)
  with assms show ?thesis by (auto dest: GetService_manager)
qed

lemma step_absent:
  assumes "step K op (self, k) = Some (self', k')"
    and "\<forall>max_sessions. op \<noteq> Op_RegisterService name max_sessions"
    and "find_service (registered_services self) name = None"
  shows "find_service (registered_services self') name = None"
  using step_cases [OF assms(1)] assms(2,3)
  by (auto simp: find_service_def map_add_def)

lemma step_entry_kept:
  assumes "step K op (self, k) = Some (self', k')"
    and "(name, port) \<in> set (registered_services self)"
  shows "(name, port) \<in> set (registered_services self')"
  using step_cases [OF assms(1)] assms(2) by auto

lemma step_names:
  assumes "step K op (self, k) = Some (self', k')"
    and "distinct (map fst (registered_services self))"
    and "\<forall>n \<in> fst ` set (registered_services self). 1 \<le> length n \<and> length n \<le> 8 \<and> NUL \<notin> set n"
  shows "distinct (map fst (registered_services self')) \<and>
         (\<forall>n \<in> fst ` set (registered_services self').
            1 \<le> length n \<and> length n \<le> 8 \<and> NUL \<notin> set n)"
  using step_cases [OF assms(1)] assms(2,3)
  by (auto simp: find_service_def map_of_eq_None_iff)

lemma run_absent:
  "run K ops (self, k) = Some (self', k') \<Longrightarrow>
   \<forall>max_sessions. Op_RegisterService name max_sessions \<notin> set ops \<Longrightarrow>
   find_service (registered_services self) name = None \<Longrightarrow>
   find_service (registered_services self') name = None"
proof (induction ops arbitrary: self k)
  case Nil
  then show ?case by simp
next
  case (Cons op ops)
  from Cons.prems(1) obtain self1 k1 where
    s: "step K op (self, k) = Some (self1, k1)" and r: "run K ops (self1, k1) = Some (self', k')"
    by (auto split: option.splits)
  from Cons.prems(2) have "\<forall>max_sessions. op \<noteq> Op_RegisterService name max_sessions" by auto
  with s Cons.prems(3) have "find_service (registered_services self1) name = None"
    by (blast intro: step_absent)
  with Cons.IH [OF r] Cons.prems(2) show ?case by simp
qed

lemma run_entry_kept:
  "run K ops (self, k) = Some (self', k') \<Longrightarrow>
   (name, port) \<in> set (registered_services self) \<Longrightarrow>
   (name, port) \<in> set (registered_services self')"
proof (induction ops arbitrary: self k)
  case Nil
  then show ?case by simp
next
  case (Cons op ops)
  from Cons.prems(1) obtain self1 k1 where
    s: "step K op (self, k) = Some (self1, k1)" and r: "run K ops (self1, k1) = Some (self', k')"
    by (auto split: option.splits)
  from s Cons.prems(2) have "(name, port) \<in> set (registered_services self1)"
    by (rule step_entry_kept)
  with Cons.IH [OF r] show ?case by simp
qed

lemma run_names:
  "run K ops (self, k) = Some (self', k') \<Longrightarrow>
   distinct (map fst (registered_services self)) \<Longrightarrow>
   \<forall>n \<in> fst ` set (registered_services self). 1 \<le> length n \<and> length n \<le> 8 \<and> NUL \<notin> set n \<Longrightarrow>
   distinct (map fst (registered_services self')) \<and>
   (\<forall>n \<in> fst ` set (registered_services self').
      1 \<le> length n \<and> length n \<le> 8 \<and> NUL \<notin> set n)"
proof (induction ops arbitrary: self k)
  case Nil
  then show ?case by simp
next
  case (Cons op ops)
  from Cons.prems(1) obtain self1 k1 where
    s: "step K op (self, k) = Some (self1, k1)" and r: "run K ops (self1, k1) = Some (self', k')"
    by (auto split: option.splits)
  from step_names [OF s Cons.prems(2,3)] Cons.IH [OF r] show ?case by blast
qed

lemma run_installed:
  "run K ops (self, k) = Some (self', k') \<Longrightarrow> sm_interface self \<noteq> None \<Longrightarrow>
   sm_interface self' \<noteq> None \<and> Op_InstallInterfaces \<notin> set ops"
proof (induction ops arbitrary: self k)
  case Nil
  then show ?case by simp
next
  case (Cons op ops)
  from Cons.prems(1) obtain self1 k1 where
    s: "step K op (self, k) = Some (self1, k1)" and r: "run K ops (self1, k1) = Some (self', k')"
    by (auto split: option.splits)
  from step_cases [OF s] Cons.prems(2)
  have "sm_interface self1 \<noteq> None" and "op \<noteq> Op_InstallInterfaces" by simp_all
  with Cons.IH [OF r] show ?case by simp
qed

lemma distinct_one_entry:
  "distinct (map fst m) \<Longrightarrow> length (filter (\<lambda>e. fst e = name) m) \<le> 1"
  by (induction m) (force simp: filter_empty_conv)+

lemma new_ServiceManager_names:
  "distinct (map fst (registered_services new_ServiceManager)) \<and>
   (\<forall>n \<in> fst ` set (registered_services new_ServiceManager).
      1 \<le> length n \<and> length n \<le> 8 \<and> NUL \<notin> set n)"
  by (simp add: new_ServiceManager_def)

text \<open>
  C5, as the claim states it, fails: the empty name was never registered, and both
  functions return \<open>ERR_INVALID_NAME_SIZE\<close> for it, since the name is validated before
  it is looked up.
\<close>

theorem unregistered_name_counterexample:
  "run spec_kernel [] (new_ServiceManager, new_kernel) = Some (new_ServiceManager, new_kernel) \<and>
   find_service (registered_services new_ServiceManager) [] = None \<and>
   GetServicePort [] new_ServiceManager = Inl ERR_INVALID_NAME_SIZE \<and>
   GetServicePort [] new_ServiceManager \<noteq> Inl ERR_SERVICE_NOT_REGISTERED \<and>
   ConnectToService spec_kernel [] new_ServiceManager new_kernel
     \<noteq> (Inl ERR_SERVICE_NOT_REGISTERED, new_kernel)"
  by (simp add: GetServicePort_def ConnectToService_def ValidateServiceName_def IsError_def
        Failed_def Code_def find_service_def new_ServiceManager_def)

text \<open>
  C5, amended. For every valid name (1 to 8 bytes, none of them the terminator) that no
  operation has registered since the registry was created, \<open>GetServicePort\<close> and
  \<open>ConnectToService\<close> both return \<open>ERR_SERVICE_NOT_REGISTERED\<close>.
\<close>

theorem unregistered_name:
  assumes "run K ops (new_ServiceManager, k0) = Some (self, k)"
    and "\<forall>max_sessions. Op_RegisterService name max_sessions \<notin> set ops"
    and "1 \<le> length name" "length name \<le> 8" "NUL \<notin> set name"
  shows "GetServicePort name self = Inl ERR_SERVICE_NOT_REGISTERED \<and>
         ConnectToService K name self k = (Inl ERR_SERVICE_NOT_REGISTERED, k)"
proof -
  have "find_service (registered_services new_ServiceManager) name = None"
    by (simp add: find_service_def new_ServiceManager_def)
  with assms(1,2) have "find_service (registered_services self) name = None"
    by (rule run_absent)
  with assms(3-5) have "GetServicePort name self = Inl ERR_SERVICE_NOT_REGISTERED"
    by (simp add: GetServicePort_def IsError_validate)
  then show ?thesis
    by (simp add: ConnectToService_def Failed_def Code_def)
qed

theorem unregistered_name_witness:
  "run spec_kernel [Op_RegisterService ''fs'' 1] (new_ServiceManager, new_kernel) =
     Some (fs_manager, fs_kernel) \<and>
   1 \<le> length ''nope'' \<and> length ''nope'' \<le> 8 \<and> NUL \<notin> set ''nope'' \<and>
   GetServicePort ''nope'' fs_manager = Inl ERR_SERVICE_NOT_REGISTERED \<and>
   ConnectToService spec_kernel ''nope'' fs_manager fs_kernel =
     (Inl ERR_SERVICE_NOT_REGISTERED, fs_kernel)"
proof -
  have h2: "\<forall>max_sessions. Op_RegisterService ''nope'' max_sessions
              \<notin> set [Op_RegisterService ''fs'' 1]" by simp
  have h3: "1 \<le> length ''nope''" and h4: "length ''nope'' \<le> 8" by simp_all
  have h5: "NUL \<notin> set ''nope''" by (simp add: NUL_def)
  show ?thesis
    using run_register_fs h3 h4 h5 unregistered_name [OF run_register_fs h2 h3 h4 h5]
    by simp
qed

text \<open>
  C9. In every state that a run reaches from the new registry, the table holds at most
  one entry for a name; and an entry of the table is still in the table, and its name
  still resolves to its port, after any further run.
\<close>

theorem registry_entries_kept:
  assumes "run K ops1 (new_ServiceManager, k0) = Some (self, k)"
    and "run K ops2 (self, k) = Some (self', k')"
  shows "length (filter (\<lambda>e. fst e = name) (registered_services self')) \<le> 1 \<and>
         (\<forall>port. (name, port) \<in> set (registered_services self) \<longrightarrow>
            (name, port) \<in> set (registered_services self') \<and>
            GetServicePort name self' = Inr port)"
proof -
  from run_names [OF assms(1)] new_ServiceManager_names
  have inv: "distinct (map fst (registered_services self))"
    "\<forall>n \<in> fst ` set (registered_services self). 1 \<le> length n \<and> length n \<le> 8 \<and> NUL \<notin> set n"
    by blast+
  from run_names [OF assms(2) inv]
  have inv': "distinct (map fst (registered_services self'))"
    "\<forall>n \<in> fst ` set (registered_services self'). 1 \<le> length n \<and> length n \<le> 8 \<and> NUL \<notin> set n"
    by blast+
  have one: "length (filter (\<lambda>e. fst e = name) (registered_services self')) \<le> 1"
    using inv'(1) by (rule distinct_one_entry)
  have kept: "(name, port) \<in> set (registered_services self') \<and>
              GetServicePort name self' = Inr port"
    if "(name, port) \<in> set (registered_services self)" for port
  proof -
    from assms(2) that have mem: "(name, port) \<in> set (registered_services self')"
      by (rule run_entry_kept)
    with inv'(1) have f: "find_service (registered_services self') name = Some port"
      by (simp add: find_service_def)
    from mem inv'(2) have "1 \<le> length name \<and> length name \<le> 8 \<and> NUL \<notin> set name"
      by force
    with f have "GetServicePort name self' = Inr port"
      by (simp add: GetServicePort_found)
    with mem show ?thesis by simp
  qed
  from one kept show ?thesis by blast
qed

theorem registry_entries_kept_witness:
  "run spec_kernel [Op_RegisterService ''fs'' 1] (new_ServiceManager, new_kernel) =
     Some (fs_manager, fs_kernel) \<and>
   run spec_kernel [Op_RegisterService ''fs'' 5, Op_RegisterService ''gpu'' 2]
     (fs_manager, fs_kernel) =
   Some (fs_manager\<lparr>registered_services := [(''fs'', ClientPort 1), (''gpu'', ClientPort 3)]\<rparr>,
         fs_kernel\<lparr>next_object_id := 4, client_ports := [(3, 2, 0), (1, 1, 0)]\<rparr>) \<and>
   (''fs'', ClientPort 1) \<in> set (registered_services fs_manager) \<and>
   (''fs'', ClientPort 1) \<in> set (registered_services
      (fs_manager\<lparr>registered_services := [(''fs'', ClientPort 1), (''gpu'', ClientPort 3)]\<rparr>)) \<and>
   GetServicePort ''fs''
      (fs_manager\<lparr>registered_services := [(''fs'', ClientPort 1), (''gpu'', ClientPort 3)]\<rparr>)
     = Inr (ClientPort 1) \<and>
   length (filter (\<lambda>e. fst e = ''fs'')
      (registered_services
        (fs_manager\<lparr>registered_services := [(''fs'', ClientPort 1), (''gpu'', ClientPort 3)]\<rparr>)))
     \<le> 1"
proof -
  have mem: "(''fs'', ClientPort 1) \<in> set (registered_services fs_manager)"
    by (simp add: fs_manager_def)
  from registry_entries_kept [OF run_register_fs run_fs_again, of "''fs''"] mem
  have "length (filter (\<lambda>e. fst e = ''fs'')
      (registered_services
        (fs_manager\<lparr>registered_services := [(''fs'', ClientPort 1), (''gpu'', ClientPort 3)]\<rparr>)))
     \<le> 1 \<and>
    (''fs'', ClientPort 1) \<in> set (registered_services
      (fs_manager\<lparr>registered_services := [(''fs'', ClientPort 1), (''gpu'', ClientPort 3)]\<rparr>)) \<and>
    GetServicePort ''fs''
      (fs_manager\<lparr>registered_services := [(''fs'', ClientPort 1), (''gpu'', ClientPort 3)]\<rparr>)
     = Inr (ClientPort 1)"
    by blast
  with run_register_fs run_fs_again mem show ?thesis by blast
qed

subsection \<open>Bring-up\<close>

text \<open>
  C7. After \<open>InstallInterfaces\<close> has returned, a second call on the same registry, at once
  or after any run of other operations, fails its assertion: it never returns a registry.
  A run that contains the second call stops there.
\<close>

theorem install_twice:
  assumes "InstallInterfaces K self k = Inr (self1, k1)"
    and "run K ops (self1, k1) = Some (self2, k2)"
  shows "InstallInterfaces K self2 k2 = Inl AssertionFailed \<and>
         Op_InstallInterfaces \<notin> set ops \<and>
         run K (ops @ [Op_InstallInterfaces]) (self1, k1) = None"
proof -
  from assms(1) have "sm_interface self1 \<noteq> None"
    by (simp add: InstallInterfaces_table)
  with assms(2) have "sm_interface self2 \<noteq> None \<and> Op_InstallInterfaces \<notin> set ops"
    by (rule run_installed)
  then have inst: "sm_interface self2 \<noteq> None" and no: "Op_InstallInterfaces \<notin> set ops"
    by simp_all
  from inst have ab: "InstallInterfaces K self2 k2 = Inl AssertionFailed"
    by (simp add: InstallInterfaces_def expired_def)
  have "run K (ops @ ops') w = (case run K ops w of None \<Rightarrow> None | Some w' \<Rightarrow> run K ops' w')"
    for ops' w
    by (induction ops arbitrary: w) (simp_all split: option.splits)
  with assms(2) ab have "run K (ops @ [Op_InstallInterfaces]) (self1, k1) = None"
    by simp
  with ab no show ?thesis by simp
qed

theorem install_twice_witness:
  "InstallInterfaces spec_kernel new_ServiceManager new_kernel =
     Inr (installed_manager, installed_kernel) \<and>
   run spec_kernel [Op_RegisterService ''fs'' 1] (installed_manager, installed_kernel) =
     Some (installed_manager\<lparr>registered_services := [(''fs'', ClientPort 1)]\<rparr>,
           installed_kernel\<lparr>next_object_id := 2, client_ports := [(1, 1, 0)]\<rparr>) \<and>
   InstallInterfaces spec_kernel
     (installed_manager\<lparr>registered_services := [(''fs'', ClientPort 1)]\<rparr>)
     (installed_kernel\<lparr>next_object_id := 2, client_ports := [(1, 1, 0)]\<rparr>)
     = Inl AssertionFailed \<and>
   run spec_kernel [Op_RegisterService ''fs'' 1, Op_InstallInterfaces]
     (installed_manager, installed_kernel) = None"
  using install_first run_installed_fs install_twice [OF install_first run_installed_fs]
  by simp

subsection \<open>The handlers\<close>

text \<open>
  C6. \<open>Initialize\<close>, bound to command 0 in the table of \<open>SM\<close>, replies with one result
  word, \<open>RESULT_SUCCESS\<close>, and no handle, whatever the registry and the kernel are, and
  returns both unchanged.
\<close>

theorem Initialize_reply:
  "Initialize service_manager ctx k =
     (\<lparr>normal_params_size = 1, num_handles_to_copy = 0, num_objects_to_move = 0,
       pushed_words = [RESULT_SUCCESS], pushed_objects = []\<rparr>, service_manager, k) \<and>
   map_of SM_functions 0 = Some (Some SM_Initialize, ''Initialize'')"
  by (simp add: Initialize_def Push_def MakeBuilder_def SM_functions_def)

lemma takeWhile_shorter:
  "x \<in> set xs \<Longrightarrow> \<not> P x \<Longrightarrow> length (takeWhile P xs) < length xs"
  by (induction xs) auto

lemma GetService_name_eq:
  "GetService_name ctx =
     (if length (cmd_buf ctx) < 17 then None
      else if NUL \<in> set (take 9 (drop 8 (cmd_buf ctx)))
        then Some (take 9 (drop 8 (cmd_buf ctx)),
                   takeWhile (\<lambda>c. c \<noteq> NUL) (take 9 (drop 8 (cmd_buf ctx))))
      else None)"
  by (auto simp: GetService_name_def Pop_u32_def PopRaw_def RequestParser_of_def
        string_of_c_str_def Let_def min_def split: bind_splits option.splits)

lemma request_8: "GetService_name (GetService_request ''12345678'') =
    Some (''12345678'' @ [NUL], ''12345678'')"
  by (simp add: GetService_name_eq GetService_request_def NUL_def)

lemma request_9:
  "17 \<le> length (cmd_buf (GetService_request ''123456789'')) \<and>
   NUL \<notin> set (take 9 (drop 8 (cmd_buf (GetService_request ''123456789''))))"
  by (simp add: GetService_request_def NUL_def)

text \<open>
  C10. \<open>GetService\<close> takes the name from the 9 bytes that follow the two unknown words,
  one more than the 8 bytes of the wire format. Whenever the name is decoded, it is the
  bytes of that buffer before its first terminator, the buffer holds a terminator and the
  name has at most 8 bytes. When none of the 9 bytes is the terminator, the constructor
  of the string reads beyond the buffer: the name, and with it the reply, has no defined
  value.
\<close>

theorem GetService_name_decoding:
  "(\<forall>name_buf name. GetService_name ctx = Some (name_buf, name) \<longrightarrow>
      name_buf = take 9 (drop 8 (cmd_buf ctx)) \<and> length name_buf = 9 \<and>
      NUL \<in> set name_buf \<and> name = takeWhile (\<lambda>c. c \<noteq> NUL) name_buf \<and> length name \<le> 8) \<and>
   (17 \<le> length (cmd_buf ctx) \<and> NUL \<in> set (take 9 (drop 8 (cmd_buf ctx))) \<longrightarrow>
      GetService_name ctx \<noteq> None) \<and>
   (17 \<le> length (cmd_buf ctx) \<and> NUL \<notin> set (take 9 (drop 8 (cmd_buf ctx))) \<longrightarrow>
      GetService_name ctx = None \<and> GetService K service_manager ctx k = None)"
proof -
  have "length (takeWhile (\<lambda>c. c \<noteq> NUL) (take 9 (drop 8 (cmd_buf ctx)))) \<le> 8"
    if "NUL \<in> set (take 9 (drop 8 (cmd_buf ctx)))"
    using takeWhile_shorter [OF that, of "\<lambda>c. c \<noteq> NUL"] by simp
  then show ?thesis
    by (auto simp: GetService_name_eq GetService_def split: if_splits)
qed

theorem GetService_name_decoding_witness:
  "GetService_name (GetService_request ''12345678'') =
     Some (''12345678'' @ [NUL], ''12345678'') \<and>
   ''12345678'' @ [NUL] = take 9 (drop 8 (cmd_buf (GetService_request ''12345678''))) \<and>
   NUL \<in> set (''12345678'' @ [NUL]) \<and> length ''12345678'' \<le> 8 \<and>
   17 \<le> length (cmd_buf (GetService_request ''123456789'')) \<and>
   NUL \<notin> set (take 9 (drop 8 (cmd_buf (GetService_request ''123456789'')))) \<and>
   GetService_name (GetService_request ''123456789'') = None \<and>
   GetService spec_kernel fs_manager (GetService_request ''123456789'') fs_kernel = None"
proof -
  from request_8
    GetService_name_decoding [of "GetService_request ''12345678''" spec_kernel fs_manager fs_kernel]
  have a: "''12345678'' @ [NUL] = take 9 (drop 8 (cmd_buf (GetService_request ''12345678''))) \<and>
           NUL \<in> set (''12345678'' @ [NUL]) \<and> length ''12345678'' \<le> 8"
    by blast
  from request_9
    GetService_name_decoding [of "GetService_request ''123456789''" spec_kernel fs_manager fs_kernel]
  have b: "GetService_name (GetService_request ''123456789'') = None \<and>
           GetService spec_kernel fs_manager (GetService_request ''123456789'') fs_kernel = None"
    by blast
  from a b request_8 request_9 show ?thesis by blast
qed

lemma GetService_eq:
  assumes "GetService_name ctx = Some (name_buf, name)"
  shows "GetService K service_manager ctx k =
     (case GetServicePort name service_manager of
        Inl code \<Rightarrow> Some (Push code (MakeBuilder 1 0 0), service_manager, k)
      | Inr client_port \<Rightarrow>
          (case Connect K client_port k of
             (Inr session, k') \<Rightarrow>
               Some (PushObjects (SessionObject session) (Push RESULT_SUCCESS (MakeBuilder 1 0 1)),
                     service_manager, k')
           | (Inl code, k') \<Rightarrow>
               if code = ERR_MAX_CONNECTIONS_REACHED
               then Some (PushObjects (PortObject client_port)
                            (Push ERR_MAX_CONNECTIONS_REACHED (MakeBuilder 1 0 1)),
                          service_manager, k')
               else Some (Push code (MakeBuilder 1 0 0), service_manager, k')))"
  using assms
  by (simp add: GetService_def Failed_def Code_def Let_def split: sum.splits prod.splits)

lemma request_fs: "GetService_name (GetService_request ''fs'') =
    Some (''fs'' @ replicate 7 NUL, ''fs'')"
  by (simp add: GetService_name_eq GetService_request_def NUL_def)

lemma request_nope: "GetService_name (GetService_request ''nope'') =
    Some (''nope'' @ replicate 5 NUL, ''nope'')"
  by (simp add: GetService_name_eq GetService_request_def NUL_def)

lemma connect_unknown_port:
  "Connect spec_kernel (ClientPort 1) new_kernel = (Inl (ERR_OTHER 0xFFFFFFFF), new_kernel)"
  by (simp add: spec_kernel_def spec_connect_def new_kernel_def)

text \<open>
  C1. When the name of a \<open>GetService\<close> request resolves to a port and \<open>Connect\<close> on that
  port fails with \<open>ERR_MAX_CONNECTIONS_REACHED\<close>, the reply carries exactly that code and
  exactly one object, the client port that the table holds for the name (not a session).
  No other failure gets an object: when \<open>Connect\<close> fails with any other code, and when
  the name does not resolve, the reply is the code of that failure alone, built for no
  handle and no object. The only other reply with an object is the one to a successful
  \<open>Connect\<close>, which carries the session. Read from the reply: one whose code is neither
  success nor \<open>ERR_MAX_CONNECTIONS_REACHED\<close> carries no object and announces none.
\<close>

theorem GetService_capacity_exceeded:
  "(\<forall>name_buf name client_port k'.
      GetService_name ctx = Some (name_buf, name) \<and>
      GetServicePort name service_manager = Inr client_port \<and>
      Connect K client_port k = (Inl ERR_MAX_CONNECTIONS_REACHED, k') \<longrightarrow>
        GetService K service_manager ctx k =
          Some (\<lparr>normal_params_size = 1, num_handles_to_copy = 0, num_objects_to_move = 1,
                 pushed_words = [ERR_MAX_CONNECTIONS_REACHED],
                 pushed_objects = [PortObject client_port]\<rparr>, service_manager, k') \<and>
        find_service (registered_services service_manager) name = Some client_port) \<and>
   (\<forall>rb sm' k'.
      GetService K service_manager ctx k = Some (rb, sm', k') \<and>
      pushed_words rb \<noteq> [RESULT_SUCCESS] \<and>
      pushed_words rb \<noteq> [ERR_MAX_CONNECTIONS_REACHED] \<longrightarrow>
        pushed_objects rb = [] \<and> num_objects_to_move rb = 0 \<and> num_handles_to_copy rb = 0) \<and>
   (\<forall>name_buf name client_port code k'.
      GetService_name ctx = Some (name_buf, name) \<and>
      GetServicePort name service_manager = Inr client_port \<and>
      Connect K client_port k = (Inl code, k') \<and>
      code \<noteq> ERR_MAX_CONNECTIONS_REACHED \<longrightarrow>
        GetService K service_manager ctx k =
          Some (\<lparr>normal_params_size = 1, num_handles_to_copy = 0, num_objects_to_move = 0,
                 pushed_words = [code], pushed_objects = []\<rparr>, service_manager, k')) \<and>
   (\<forall>name_buf name code.
      GetService_name ctx = Some (name_buf, name) \<and>
      GetServicePort name service_manager = Inl code \<longrightarrow>
        GetService K service_manager ctx k =
          Some (\<lparr>normal_params_size = 1, num_handles_to_copy = 0, num_objects_to_move = 0,
                 pushed_words = [code], pushed_objects = []\<rparr>, service_manager, k)) \<and>
   (\<forall>name_buf name client_port session k'.
      GetService_name ctx = Some (name_buf, name) \<and>
      GetServicePort name service_manager = Inr client_port \<and>
      Connect K client_port k = (Inr session, k') \<longrightarrow>
        GetService K service_manager ctx k =
          Some (\<lparr>normal_params_size = 1, num_handles_to_copy = 0, num_objects_to_move = 1,
                 pushed_words = [RESULT_SUCCESS],
                 pushed_objects = [SessionObject session]\<rparr>, service_manager, k'))"
proof -
  have first: "GetService K service_manager ctx k =
          Some (\<lparr>normal_params_size = 1, num_handles_to_copy = 0, num_objects_to_move = 1,
                 pushed_words = [ERR_MAX_CONNECTIONS_REACHED],
                 pushed_objects = [PortObject client_port]\<rparr>, service_manager, k') \<and>
        find_service (registered_services service_manager) name = Some client_port"
    if "GetService_name ctx = Some (name_buf, name)"
      and "GetServicePort name service_manager = Inr client_port"
      and "Connect K client_port k = (Inl ERR_MAX_CONNECTIONS_REACHED, k')"
    for name_buf name client_port k'
  proof -
    from that(2) have "find_service (registered_services service_manager) name = Some client_port"
      by (auto simp: GetServicePort_def split: if_splits option.splits)
    with that show ?thesis
      by (simp add: GetService_eq PushObjects_def Push_def MakeBuilder_def)
  qed
  have second: "pushed_objects rb = [] \<and> num_objects_to_move rb = 0 \<and> num_handles_to_copy rb = 0"
    if "GetService K service_manager ctx k = Some (rb, sm', k')"
      and "pushed_words rb \<noteq> [RESULT_SUCCESS]"
      and "pushed_words rb \<noteq> [ERR_MAX_CONNECTIONS_REACHED]"
    for rb sm' k'
  proof -
    from that(1) obtain name_buf name where n: "GetService_name ctx = Some (name_buf, name)"
      by (cases "GetService_name ctx") (auto simp: GetService_def)
    from that show ?thesis
      by (auto simp: GetService_eq [OF n] PushObjects_def Push_def MakeBuilder_def
            split: sum.splits prod.splits if_splits)
  qed
  have other: "GetService K service_manager ctx k =
          Some (\<lparr>normal_params_size = 1, num_handles_to_copy = 0, num_objects_to_move = 0,
                 pushed_words = [code], pushed_objects = []\<rparr>, service_manager, k')"
    if "GetService_name ctx = Some (name_buf, name)"
      and "GetServicePort name service_manager = Inr client_port"
      and "Connect K client_port k = (Inl code, k')"
      and "code \<noteq> ERR_MAX_CONNECTIONS_REACHED"
    for name_buf name client_port code k'
    using that by (simp add: GetService_eq Push_def MakeBuilder_def)
  have unresolved: "GetService K service_manager ctx k =
          Some (\<lparr>normal_params_size = 1, num_handles_to_copy = 0, num_objects_to_move = 0,
                 pushed_words = [code], pushed_objects = []\<rparr>, service_manager, k)"
    if "GetService_name ctx = Some (name_buf, name)"
      and "GetServicePort name service_manager = Inl code"
    for name_buf name code
    using that by (simp add: GetService_eq Push_def MakeBuilder_def)
  have connected: "GetService K service_manager ctx k =
          Some (\<lparr>normal_params_size = 1, num_handles_to_copy = 0, num_objects_to_move = 1,
                 pushed_words = [RESULT_SUCCESS],
                 pushed_objects = [SessionObject session]\<rparr>, service_manager, k')"
    if "GetService_name ctx = Some (name_buf, name)"
      and "GetServicePort name service_manager = Inr client_port"
      and "Connect K client_port k = (Inr session, k')"
    for name_buf name client_port session k'
    using that by (simp add: GetService_eq PushObjects_def Push_def MakeBuilder_def)
  from first second other unresolved connected show ?thesis by blast
qed

theorem GetService_capacity_exceeded_witness:
  "GetService_name (GetService_request ''fs'') = Some (''fs'' @ replicate 7 NUL, ''fs'') \<and>
   GetServicePort ''fs'' fs_manager = Inr (ClientPort 1) \<and>
   Connect spec_kernel (ClientPort 1) fs_kernel = (Inr (ClientSession 2), fs_kernel_busy) \<and>
   GetService spec_kernel fs_manager (GetService_request ''fs'') fs_kernel =
     Some (\<lparr>normal_params_size = 1, num_handles_to_copy = 0, num_objects_to_move = 1,
            pushed_words = [RESULT_SUCCESS],
            pushed_objects = [SessionObject (ClientSession 2)]\<rparr>, fs_manager, fs_kernel_busy) \<and>
   Connect spec_kernel (ClientPort 1) fs_kernel_busy =
     (Inl ERR_MAX_CONNECTIONS_REACHED, fs_kernel_busy) \<and>
   GetService spec_kernel fs_manager (GetService_request ''fs'') fs_kernel_busy =
     Some (\<lparr>normal_params_size = 1, num_handles_to_copy = 0, num_objects_to_move = 1,
            pushed_words = [ERR_MAX_CONNECTIONS_REACHED],
            pushed_objects = [PortObject (ClientPort 1)]\<rparr>, fs_manager, fs_kernel_busy) \<and>
   find_service (registered_services fs_manager) ''fs'' = Some (ClientPort 1) \<and>
   Connect spec_kernel (ClientPort 1) new_kernel = (Inl (ERR_OTHER 0xFFFFFFFF), new_kernel) \<and>
   ERR_OTHER 0xFFFFFFFF \<noteq> ERR_MAX_CONNECTIONS_REACHED \<and>
   GetService spec_kernel fs_manager (GetService_request ''fs'') new_kernel =
     Some (\<lparr>normal_params_size = 1, num_handles_to_copy = 0, num_objects_to_move = 0,
            pushed_words = [ERR_OTHER 0xFFFFFFFF],
            pushed_objects = []\<rparr>, fs_manager, new_kernel) \<and>
   GetService_name (GetService_request ''nope'') = Some (''nope'' @ replicate 5 NUL, ''nope'') \<and>
   GetServicePort ''nope'' new_ServiceManager = Inl ERR_SERVICE_NOT_REGISTERED \<and>
   GetService spec_kernel new_ServiceManager (GetService_request ''nope'') new_kernel =
     Some (\<lparr>normal_params_size = 1, num_handles_to_copy = 0, num_objects_to_move = 0,
            pushed_words = [ERR_SERVICE_NOT_REGISTERED],
            pushed_objects = []\<rparr>, new_ServiceManager, new_kernel)"
proof -
  have first_connect:
    "Connect spec_kernel (ClientPort 1) fs_kernel = (Inr (ClientSession 2), fs_kernel_busy)"
    using connect_fs_first by (simp add: fs_kernel_busy_def)
  have distinct_code: "ERR_OTHER 0xFFFFFFFF \<noteq> ERR_MAX_CONNECTIONS_REACHED"
    by simp
  from request_fs resolve_fs first_connect
    GetService_capacity_exceeded
      [of "GetService_request ''fs''" fs_manager spec_kernel fs_kernel]
  have connected: "GetService spec_kernel fs_manager (GetService_request ''fs'') fs_kernel =
     Some (\<lparr>normal_params_size = 1, num_handles_to_copy = 0, num_objects_to_move = 1,
            pushed_words = [RESULT_SUCCESS],
            pushed_objects = [SessionObject (ClientSession 2)]\<rparr>, fs_manager, fs_kernel_busy)"
    by blast
  from request_fs resolve_fs connect_fs_second
    GetService_capacity_exceeded
      [of "GetService_request ''fs''" fs_manager spec_kernel fs_kernel_busy]
  have full: "GetService spec_kernel fs_manager (GetService_request ''fs'') fs_kernel_busy =
     Some (\<lparr>normal_params_size = 1, num_handles_to_copy = 0, num_objects_to_move = 1,
            pushed_words = [ERR_MAX_CONNECTIONS_REACHED],
            pushed_objects = [PortObject (ClientPort 1)]\<rparr>, fs_manager, fs_kernel_busy) \<and>
     find_service (registered_services fs_manager) ''fs'' = Some (ClientPort 1)"
    by blast
  from request_fs resolve_fs connect_unknown_port distinct_code
    GetService_capacity_exceeded
      [of "GetService_request ''fs''" fs_manager spec_kernel new_kernel]
  have other: "GetService spec_kernel fs_manager (GetService_request ''fs'') new_kernel =
     Some (\<lparr>normal_params_size = 1, num_handles_to_copy = 0, num_objects_to_move = 0,
            pushed_words = [ERR_OTHER 0xFFFFFFFF],
            pushed_objects = []\<rparr>, fs_manager, new_kernel)"
    by blast
  from request_nope resolve_nope
    GetService_capacity_exceeded
      [of "GetService_request ''nope''" new_ServiceManager spec_kernel new_kernel]
  have unresolved:
    "GetService spec_kernel new_ServiceManager (GetService_request ''nope'') new_kernel =
     Some (\<lparr>normal_params_size = 1, num_handles_to_copy = 0, num_objects_to_move = 0,
            pushed_words = [ERR_SERVICE_NOT_REGISTERED],
            pushed_objects = []\<rparr>, new_ServiceManager, new_kernel)"
    by blast
  from request_fs resolve_fs first_connect connected connect_fs_second full
    connect_unknown_port distinct_code other request_nope resolve_nope unresolved
  show ?thesis by blast
qed

end
